theory Spec2Isabelle
  imports Main "HOL-Library.Word" "HOL-Library.Sublist"
begin

section \<open>Startup bootstrap of agent sessions\<close>

text \<open>
  A shallow embedding of the startup bootstrap code of the repository:
  \<^item> \<^verbatim>\<open>internal/runtime/runtime.go\<close>: capability resolution, the fallback matrix,
    the fallback command composition, the contract builder and the in-process executor;
  \<^item> an earlier revision of the same package (\<^verbatim>\<open>unnamed/part_001\<close>), where the
    per-role command rules are written inline;
  \<^item> \<^verbatim>\<open>internal/cmd\<close> (second part of \<^verbatim>\<open>witness_inbox.go\<close>): the detached
    scheduling of the fallback commands as background shell scripts.

  Go strings are byte sequences and are modelled as \<^typ>\<open>string\<close>; a nil pointer is
  \<^term>\<open>None\<close>. Go's \<^verbatim>\<open>int\<close> and \<^verbatim>\<open>time.Duration\<close> are 64-bit two's complement
  integers: \<^typ>\<open>64 word\<close>, read with \<^term>\<open>sint\<close>, whose multiplication wraps.
\<close>

subsection \<open>Data model\<close>

type_synonym go_int = "64 word"

type_synonym Duration = "64 word"

definition Millisecond :: Duration where
  "Millisecond = 1000000"

text \<open>
  The configuration types live in package \<^verbatim>\<open>config\<close>, whose declarations are not
  part of the sources at hand. The records hold the fields the bootstrap code reads:
  \<^verbatim>\<open>rc.Hooks.Provider\<close>, \<^verbatim>\<open>rc.Hooks.Informational\<close>, \<^verbatim>\<open>rc.PromptMode\<close> and
  \<^verbatim>\<open>rc.Tmux.ReadyDelayMs\<close>; \<^verbatim>\<open>Hooks\<close> and \<^verbatim>\<open>Tmux\<close> are pointers.
\<close>

record RuntimeHooksConfig =
  Provider :: string
  Informational :: bool

record RuntimeTmuxConfig =
  ReadyDelayMs :: go_int

record RuntimeConfig =
  PromptMode :: string
  Hooks :: "RuntimeHooksConfig option"
  Tmux :: "RuntimeTmuxConfig option"

record startupCapabilities =
  HasHooks :: bool
  HasPrompt :: bool

record StartupFallbackInfo =
  IncludePrimeInBeacon :: bool
  SendBeaconNudge :: bool
  SendStartupNudge :: bool
  StartupNudgeDelayMs :: go_int

record StartupBootstrapSpec =
  Role :: string
  BeaconMessage :: string
  StartupNudgeMessage :: string
  IncludeFallbackCommands :: bool
  ReadyDelayApplied :: bool

type_synonym StartupBootstrapStepKind = string

definition StartupBootstrapStepWait :: StartupBootstrapStepKind where
  "StartupBootstrapStepWait = ''wait''"

definition StartupBootstrapStepNudge :: StartupBootstrapStepKind where
  "StartupBootstrapStepNudge = ''nudge''"

text \<open>
  A step is a Go struct with all three fields; a struct literal leaves the fields it
  does not name at their zero value.
\<close>

record StartupBootstrapStep =
  Kind :: StartupBootstrapStepKind
  Delay :: Duration
  Command :: string

definition WaitStep :: "Duration \<Rightarrow> StartupBootstrapStep" where
  "WaitStep d = \<lparr>Kind = StartupBootstrapStepWait, Delay = d, Command = []\<rparr>"

definition NudgeStep :: "string \<Rightarrow> StartupBootstrapStep" where
  "NudgeStep c = \<lparr>Kind = StartupBootstrapStepNudge, Delay = 0, Command = c\<rparr>"

record StartupBootstrapContract =
  Info :: "StartupFallbackInfo option"
  Steps :: "StartupBootstrapStep list"

text \<open>
  The per-role plan returned by \<^verbatim>\<open>config.StartupFallbackPlanForRole\<close>. Only its use
  is in the sources: the four fields read by \<^verbatim>\<open>StartupFallbackCommands\<close>.
\<close>

record RoleStartupPlan =
  PrePrimeCommand :: string
  PrimeCommand :: string
  AutoMailInject :: bool
  PromptlessCommand :: string

subsection \<open>Capability resolution and the fallback matrix\<close>

text \<open>
  Modelled from the spec: \<^verbatim>\<open>config.DefaultRuntimeConfig\<close> is not part of the sources at
  hand. The specification calls it ``a default descriptor equivalent to a fully
  hook-and-prompt-capable backend''; the tests of the runtime package say ``Nil config
  defaults to Claude (hooks enabled, prompt "arg")''. Its ready delay is not stated
  anywhere and is left unset.
\<close>

definition DefaultRuntimeConfig :: RuntimeConfig where
  "DefaultRuntimeConfig =
     \<lparr>PromptMode = ''arg'',
      Hooks = Some \<lparr>Provider = ''claude'', Informational = False\<rparr>,
      Tmux = None\<rparr>"

definition orDefault :: "RuntimeConfig option \<Rightarrow> RuntimeConfig" where
  "orDefault rc = (case rc of None \<Rightarrow> DefaultRuntimeConfig | Some r \<Rightarrow> r)"

definition resolveStartupCapabilities :: "RuntimeConfig option \<Rightarrow> startupCapabilities" where
  "resolveStartupCapabilities rc0 =
     (let rc = orDefault rc0 in
      \<lparr>HasHooks =
         (case Hooks rc of
            None \<Rightarrow> False
          | Some h \<Rightarrow> Provider h \<noteq> [] \<and> Provider h \<noteq> ''none'' \<and> \<not> Informational h),
       HasPrompt = (PromptMode rc \<noteq> ''none'')\<rparr>)"

text \<open>The earlier revision tests the hooks with a helper that is false on nil.\<close>

definition hasExecutableHooks :: "RuntimeConfig option \<Rightarrow> bool" where
  "hasExecutableHooks rc0 =
     (case rc0 of
        None \<Rightarrow> False
      | Some rc \<Rightarrow>
          (case Hooks rc of
             None \<Rightarrow> False
           | Some h \<Rightarrow> Provider h \<noteq> [] \<and> Provider h \<noteq> ''none'' \<and> \<not> Informational h))"

definition DefaultPrimeWaitMs :: go_int where
  "DefaultPrimeWaitMs = 2000"

text \<open>
  \<^verbatim>\<open>GetStartupFallbackInfo\<close> starts from the zero value of the struct and assigns
  fields branch by branch.
\<close>

definition GetStartupFallbackInfo :: "RuntimeConfig option \<Rightarrow> StartupFallbackInfo" where
  "GetStartupFallbackInfo rc =
     (let capabilities = resolveStartupCapabilities rc;
          info = \<lparr>IncludePrimeInBeacon = False, SendBeaconNudge = False,
                  SendStartupNudge = False, StartupNudgeDelayMs = 0\<rparr>
      in if \<not> HasHooks capabilities then
           (let info1 = info\<lparr>IncludePrimeInBeacon := True, SendStartupNudge := True,
                              StartupNudgeDelayMs := DefaultPrimeWaitMs\<rparr>
            in if \<not> HasPrompt capabilities then info1\<lparr>SendBeaconNudge := True\<rparr> else info1)
         else if \<not> HasPrompt capabilities then
           info\<lparr>SendBeaconNudge := True, SendStartupNudge := True, StartupNudgeDelayMs := 0\<rparr>
         else info)"

text \<open>The earlier revision: the same matrix, with a role argument it does not read.\<close>

definition GetStartupFallbackInfoForRole :: "string \<Rightarrow> RuntimeConfig option \<Rightarrow> StartupFallbackInfo" where
  "GetStartupFallbackInfoForRole role rc0 =
     (let rc = orDefault rc0;
          hasHooks = hasExecutableHooks (Some rc);
          hasPrompt = (PromptMode rc \<noteq> ''none'');
          info = \<lparr>IncludePrimeInBeacon = False, SendBeaconNudge = False,
                  SendStartupNudge = False, StartupNudgeDelayMs = 0\<rparr>
      in if \<not> hasHooks then
           (let info1 = info\<lparr>IncludePrimeInBeacon := True, SendStartupNudge := True,
                              StartupNudgeDelayMs := DefaultPrimeWaitMs\<rparr>
            in if \<not> hasPrompt then info1\<lparr>SendBeaconNudge := True\<rparr> else info1)
         else if \<not> hasPrompt then
           info\<lparr>SendBeaconNudge := True, SendStartupNudge := True, StartupNudgeDelayMs := 0\<rparr>
         else info)"

subsection \<open>String helpers of the Go library\<close>

text \<open>\<^verbatim>\<open>strings.Join\<close>: the elements separated by \<open>sep\<close>.\<close>

fun Join :: "string list \<Rightarrow> string \<Rightarrow> string" where
  "Join [] sep = []"
| "Join [x] sep = x"
| "Join (x # y # ys) sep = x @ sep @ Join (y # ys) sep"

text \<open>
  \<^verbatim>\<open>strings.ToLower\<close> and \<^verbatim>\<open>strings.TrimSpace\<close> on ASCII text: the letters
  \<open>A\<close> to \<open>Z\<close> are mapped to \<open>a\<close> to \<open>z\<close>, and the six ASCII white space bytes are
  trimmed at both ends. On a string with bytes from 0x80 on, Go decodes UTF-8 runes and
  applies the Unicode tables; the model leaves such bytes as they are, and is exact on
  ASCII strings only.
\<close>

definition lowerChar :: "char \<Rightarrow> char" where
  "lowerChar c =
     (case map_of (zip ''ABCDEFGHIJKLMNOPQRSTUVWXYZ'' ''abcdefghijklmnopqrstuvwxyz'') c of
        None \<Rightarrow> c
      | Some l \<Rightarrow> l)"

definition ToLower :: "string \<Rightarrow> string" where
  "ToLower s = map lowerChar s"

definition asciiSpace :: "char \<Rightarrow> bool" where
  "asciiSpace c =
     (c = CHR 0x09 \<or> c = CHR 0x0A \<or> c = CHR 0x0B \<or> c = CHR 0x0C \<or> c = CHR 0x0D \<or> c = CHR '' '')"

definition TrimSpace :: "string \<Rightarrow> string" where
  "TrimSpace s = rev (dropWhile asciiSpace (rev (dropWhile asciiSpace s)))"

subsection \<open>Fallback commands\<close>

text \<open>
  \<^verbatim>\<open>StartupFallbackCommands\<close> of \<^verbatim>\<open>internal/runtime/runtime.go\<close>. The role table
  \<^verbatim>\<open>config.StartupFallbackPlanForRole\<close> is not part of the sources at hand and is the
  first parameter. A nil slice and an empty slice are both \<^term>\<open>[]\<close>.
\<close>

definition StartupFallbackCommands ::
  "(string \<Rightarrow> RoleStartupPlan) \<Rightarrow> string \<Rightarrow> RuntimeConfig option \<Rightarrow> string list" where
  "StartupFallbackCommands StartupFallbackPlanForRole role rc =
     (let capabilities = resolveStartupCapabilities rc in
      if HasHooks capabilities then []
      else
        (let rolePlan = StartupFallbackPlanForRole role;
             parts0 = (if PrePrimeCommand rolePlan \<noteq> [] then [PrePrimeCommand rolePlan] else []);
             trimmed = TrimSpace (PrimeCommand rolePlan);
             primeCommand = (if trimmed = [] then ''gt prime'' else trimmed);
             parts1 = parts0 @ [primeCommand];
             parts2 = (if AutoMailInject rolePlan then parts1 @ [''gt mail check --inject'']
                       else parts1);
             parts3 = (if \<not> HasPrompt capabilities \<and> PromptlessCommand rolePlan \<noteq> []
                       then parts2 @ [PromptlessCommand rolePlan] else parts2)
         in [Join parts3 '' && '']))"

text \<open>
  The earlier revision (\<^verbatim>\<open>unnamed/part_001\<close>) has no role table: the rules for
  \<open>boot\<close>, \<open>deacon\<close> and the autonomous roles are written in the function itself.
\<close>

definition isAutonomousRole :: "string \<Rightarrow> bool" where
  "isAutonomousRole role =
     (role = ''polecat'' \<or> role = ''witness'' \<or> role = ''refinery'' \<or> role = ''deacon''
      \<or> role = ''boot'')"

definition deaconHeartbeat :: string where
  "deaconHeartbeat = ''gt deacon heartbeat '' @ [CHR 0x22] @ ''boot patrol'' @ [CHR 0x22] @ '' && ''"

definition StartupFallbackCommands_inline :: "string \<Rightarrow> RuntimeConfig option \<Rightarrow> string list" where
  "StartupFallbackCommands_inline role0 rc0 =
     (let rc = orDefault rc0 in
      if hasExecutableHooks (Some rc) then []
      else
        (let role = ToLower role0 in
         if role = ''boot'' then [''gt prime && gt boot triage'']
         else
           (let command0 = ''gt prime'';
                command1 = (if role = ''deacon'' then deaconHeartbeat @ command0 else command0);
                command2 = (if isAutonomousRole role
                            then command1 @ '' && gt mail check --inject'' else command1)
            in [command2])))"

subsection \<open>The contract builder\<close>

definition readyDelayDuration :: "RuntimeConfig option \<Rightarrow> Duration" where
  "readyDelayDuration rc0 =
     (let rc = orDefault rc0 in
      case Tmux rc of
        None \<Rightarrow> 0
      | Some t \<Rightarrow> if sint (ReadyDelayMs t) \<le> 0 then 0 else ReadyDelayMs t * Millisecond)"

definition BuildStartupBootstrapContract ::
  "(string \<Rightarrow> RoleStartupPlan) \<Rightarrow> StartupBootstrapSpec \<Rightarrow> RuntimeConfig option
     \<Rightarrow> StartupBootstrapContract" where
  "BuildStartupBootstrapContract StartupFallbackPlanForRole spec rc =
     (let info = GetStartupFallbackInfo rc;
          steps1 =
            (if SendBeaconNudge info \<and> SendStartupNudge info \<and> StartupNudgeDelayMs info = 0
                \<and> BeaconMessage spec \<noteq> [] \<and> StartupNudgeMessage spec \<noteq> []
             then [NudgeStep (BeaconMessage spec @ [CHR 0x0A, CHR 0x0A] @ StartupNudgeMessage spec)]
             else
               (if SendBeaconNudge info \<and> BeaconMessage spec \<noteq> []
                then [NudgeStep (BeaconMessage spec)] else [])
               @ (if SendStartupNudge info \<and> StartupNudgeMessage spec \<noteq> []
                  then (if 0 < sint (StartupNudgeDelayMs info)
                        then [WaitStep (StartupNudgeDelayMs info * Millisecond)] else [])
                       @ [NudgeStep (StartupNudgeMessage spec)]
                  else []));
          steps2 =
            (if IncludeFallbackCommands spec then
               (let commands = StartupFallbackCommands StartupFallbackPlanForRole (Role spec) rc in
                if 0 < length commands then
                  (if \<not> ReadyDelayApplied spec \<and> 0 < sint (readyDelayDuration rc)
                   then [WaitStep (readyDelayDuration rc)] else [])
                  @ map NudgeStep commands
                else [])
             else [])
      in \<lparr>Info = Some info, Steps = steps1 @ steps2\<rparr>)"

subsection \<open>The in-process executor\<close>

text \<open>
  The executor acts on the outside world through two calls: \<^verbatim>\<open>t.NudgeSession\<close> and
  the sleep function. The world is a state \<open>'s\<close> that both transform; a nudge may also
  return an error \<open>'e\<close>. The loop over the steps is a recursion over the list.
\<close>

fun runSteps ::
  "(string \<Rightarrow> string \<Rightarrow> 's \<Rightarrow> 'e option \<times> 's) \<Rightarrow> (Duration \<Rightarrow> 's \<Rightarrow> 's) \<Rightarrow> string
     \<Rightarrow> StartupBootstrapStep list \<Rightarrow> 's \<Rightarrow> 'e option \<times> 's" where
  "runSteps NudgeSession sleepFn sessionID [] s = (None, s)"
| "runSteps NudgeSession sleepFn sessionID (step # rest) s =
     (if Kind step = StartupBootstrapStepWait then
        (if 0 < sint (Delay step)
         then runSteps NudgeSession sleepFn sessionID rest (sleepFn (Delay step) s)
         else runSteps NudgeSession sleepFn sessionID rest s)
      else if Kind step = StartupBootstrapStepNudge then
        (if Command step = [] then runSteps NudgeSession sleepFn sessionID rest s
         else
           (case NudgeSession sessionID (Command step) s of
              (Some err, s') \<Rightarrow> (Some err, s')
            | (None, s') \<Rightarrow> runSteps NudgeSession sleepFn sessionID rest s'))
      else runSteps NudgeSession sleepFn sessionID rest s)"

text \<open>
  \<open>timeSleep\<close> is \<^verbatim>\<open>time.Sleep\<close>, the replacement of a nil \<open>sleepFn\<close>.
\<close>

definition executeStartupBootstrapContract ::
  "(Duration \<Rightarrow> 's \<Rightarrow> 's) \<Rightarrow> (string \<Rightarrow> string \<Rightarrow> 's \<Rightarrow> 'e option \<times> 's) \<Rightarrow> string
     \<Rightarrow> StartupBootstrapContract option \<Rightarrow> (Duration \<Rightarrow> 's \<Rightarrow> 's) option \<Rightarrow> 's
     \<Rightarrow> 'e option \<times> 's" where
  "executeStartupBootstrapContract timeSleep NudgeSession sessionID contract sleepFn s =
     (case contract of
        None \<Rightarrow> (None, s)
      | Some c \<Rightarrow>
          runSteps NudgeSession (case sleepFn of None \<Rightarrow> timeSleep | Some f \<Rightarrow> f)
            sessionID (Steps c) s)"

text \<open>
  A recording world, as the recording nudger and the injected sleep function of the
  package's tests: the state is the list of calls made so far. Whether a nudge fails
  may depend on the session, the message and the calls made before it.
\<close>

datatype call = SleepCall Duration | NudgeCall string string

definition recordingNudger ::
  "(string \<Rightarrow> string \<Rightarrow> call list \<Rightarrow> 'e option) \<Rightarrow> string \<Rightarrow> string \<Rightarrow> call list
     \<Rightarrow> 'e option \<times> call list" where
  "recordingNudger fails sessionID message calls =
     (fails sessionID message calls, calls @ [NudgeCall sessionID message])"

definition recordingSleep :: "Duration \<Rightarrow> call list \<Rightarrow> call list" where
  "recordingSleep d calls = calls @ [SleepCall d]"

text \<open>The calls one step makes when its nudge, if any, is delivered.\<close>

definition stepCalls :: "string \<Rightarrow> StartupBootstrapStep \<Rightarrow> call list" where
  "stepCalls sessionID step =
     (if Kind step = StartupBootstrapStepWait then
        (if 0 < sint (Delay step) then [SleepCall (Delay step)] else [])
      else if Kind step = StartupBootstrapStepNudge then
        (if Command step = [] then [] else [NudgeCall sessionID (Command step)])
      else [])"

text \<open>The steps that make no call: a wait that is not positive, a nudge with no text.\<close>

definition skippedStep :: "StartupBootstrapStep \<Rightarrow> bool" where
  "skippedStep step =
     ((Kind step = StartupBootstrapStepWait \<and> sint (Delay step) \<le> 0)
      \<or> (Kind step = StartupBootstrapStepNudge \<and> Command step = []))"

subsection \<open>Detached scheduling of the fallback commands\<close>

text \<open>
  \<^verbatim>\<open>internal/cmd\<close>: \<^verbatim>\<open>startupBootstrapDelay\<close>, \<^verbatim>\<open>buildDeferredNudgeScript\<close> and
  \<^verbatim>\<open>scheduleRespawnStartupBootstrap\<close>. Two library calls are parameters:
  \<open>ShellQuote\<close> is \<^verbatim>\<open>config.ShellQuote\<close>, which is not part of the sources at hand, and
  \<open>fmtSeconds d\<close> is the text of \<^verbatim>\<open>fmt.Sprintf("%.3f", d.Seconds())\<close>, a floating
  point rendering. The package variables \<^verbatim>\<open>startupFallbackCommands\<close> and
  \<^verbatim>\<open>tmuxRunShellBackground\<close> are parameters as well, as the tests replace them; the
  background runner transforms the world \<open>'s\<close> and may return an error \<open>'e\<close>.
\<close>

definition startupBootstrapDelay :: "RuntimeConfig option \<Rightarrow> Duration" where
  "startupBootstrapDelay runtimeConfig =
     (case runtimeConfig of
        None \<Rightarrow> 0
      | Some rc \<Rightarrow>
          (case Tmux rc of
             None \<Rightarrow> 0
           | Some t \<Rightarrow> if sint (ReadyDelayMs t) \<le> 0 then 0 else ReadyDelayMs t * Millisecond))"

definition buildDeferredNudgeScript ::
  "(string \<Rightarrow> string) \<Rightarrow> (Duration \<Rightarrow> string) \<Rightarrow> string \<Rightarrow> string \<Rightarrow> Duration \<Rightarrow> string" where
  "buildDeferredNudgeScript ShellQuote fmtSeconds sessionID command delay =
     (let steps0 = (if 0 < sint delay then [''sleep '' @ fmtSeconds delay] else []);
          quotedSession = ShellQuote sessionID;
          quotedCommand = ShellQuote command;
          steps1 = steps0 @
            [''tmux send-keys -t '' @ quotedSession @ '' -l '' @ quotedCommand,
             ''tmux send-keys -t '' @ quotedSession @ '' Enter'']
      in Join steps1 '' && '')"

text \<open>
  \<^verbatim>\<open>fmt.Errorf("scheduling startup bootstrap for %s: %w", sessionID, err)\<close>: the
  session and the wrapped error.
\<close>

datatype 'e schedule_error = SchedulingError string 'e

fun scheduleLoop ::
  "(string \<Rightarrow> string) \<Rightarrow> (Duration \<Rightarrow> string) \<Rightarrow> (string \<Rightarrow> 's \<Rightarrow> 'e option \<times> 's) \<Rightarrow> string
     \<Rightarrow> string list \<Rightarrow> Duration \<Rightarrow> 's \<Rightarrow> 'e schedule_error option \<times> 's" where
  "scheduleLoop ShellQuote fmtSeconds tmuxRunShellBackground sessionID [] delay s = (None, s)"
| "scheduleLoop ShellQuote fmtSeconds tmuxRunShellBackground sessionID (command # rest) delay s =
     (let script = buildDeferredNudgeScript ShellQuote fmtSeconds sessionID command delay in
      case tmuxRunShellBackground script s of
        (Some err, s') \<Rightarrow> (Some (SchedulingError sessionID err), s')
      | (None, s') \<Rightarrow>
          scheduleLoop ShellQuote fmtSeconds tmuxRunShellBackground sessionID rest 0 s')"

definition scheduleRespawnStartupBootstrap ::
  "(string \<Rightarrow> string) \<Rightarrow> (Duration \<Rightarrow> string) \<Rightarrow> (string \<Rightarrow> RuntimeConfig option \<Rightarrow> string list)
     \<Rightarrow> (string \<Rightarrow> 's \<Rightarrow> 'e option \<times> 's) \<Rightarrow> string \<Rightarrow> string \<Rightarrow> RuntimeConfig option \<Rightarrow> 's
     \<Rightarrow> 'e schedule_error option \<times> 's" where
  "scheduleRespawnStartupBootstrap ShellQuote fmtSeconds startupFallbackCommands
       tmuxRunShellBackground sessionID role runtimeConfig s =
     (let commands = startupFallbackCommands role runtimeConfig in
      if length commands = 0 then (None, s)
      else scheduleLoop ShellQuote fmtSeconds tmuxRunShellBackground sessionID commands
             (startupBootstrapDelay runtimeConfig) s)"

text \<open>
  A recording background runner, as in the tests of the package: the state is the list
  of scripts submitted so far; whether a submission fails may depend on the script and
  on the scripts submitted before it.
\<close>

definition recordingRunner ::
  "(string \<Rightarrow> string list \<Rightarrow> 'e option) \<Rightarrow> string \<Rightarrow> string list \<Rightarrow> 'e option \<times> string list" where
  "recordingRunner fails script scripts = (fails script scripts, scripts @ [script])"

text \<open>
  The fragments of a command list: the first is built with the delay, the others
  with none.
\<close>

definition fragments ::
  "(string \<Rightarrow> string) \<Rightarrow> (Duration \<Rightarrow> string) \<Rightarrow> string \<Rightarrow> string list \<Rightarrow> Duration \<Rightarrow> string list" where
  "fragments ShellQuote fmtSeconds sessionID commands delay =
     (case commands of
        [] \<Rightarrow> []
      | c # cs \<Rightarrow>
          buildDeferredNudgeScript ShellQuote fmtSeconds sessionID c delay
          # map (\<lambda>c'. buildDeferredNudgeScript ShellQuote fmtSeconds sessionID c' 0) cs)"

subsection \<open>Session start: validation\<close>

text \<open>
  Modelled from the spec: \<^verbatim>\<open>StartSession\<close> of package \<^verbatim>\<open>session\<close> is not part of the
  sources at hand; only its tests are. The specification says that it ``validates, in
  order, that sessionID, workDir, and role are non-empty, failing fast with a distinct
  message naming the missing field for each''; the three messages are the ones the tests
  compare with. Everything after the validation (prompt, launch command, the session
  itself) is the parameter \<open>launch\<close>, which transforms the world \<open>'s\<close>.
\<close>

record SessionConfig =
  SessionID :: string
  WorkDir :: string
  SessionRole :: string

definition StartSession ::
  "(SessionConfig \<Rightarrow> 's \<Rightarrow> (string + 'h) \<times> 's) \<Rightarrow> SessionConfig \<Rightarrow> 's \<Rightarrow> (string + 'h) \<times> 's" where
  "StartSession launch cfg s =
     (if SessionID cfg = [] then (Inl ''SessionID is required'', s)
      else if WorkDir cfg = [] then (Inl ''WorkDir is required'', s)
      else if SessionRole cfg = [] then (Inl ''Role is required'', s)
      else launch cfg s)"

section \<open>Properties\<close>

subsection \<open>Capabilities and the fallback matrix\<close>

lemma hasExecutableHooks_orDefault:
  "hasExecutableHooks (Some (orDefault rc)) = HasHooks (resolveStartupCapabilities rc)"
  by (simp add: hasExecutableHooks_def resolveStartupCapabilities_def Let_def)

text \<open>Both revisions compute the same matrix; the role argument plays no part.\<close>

lemma GetStartupFallbackInfoForRole_eq:
  "GetStartupFallbackInfoForRole role rc = GetStartupFallbackInfo rc"
  by (simp add: GetStartupFallbackInfoForRole_def GetStartupFallbackInfo_def Let_def
      hasExecutableHooks_orDefault resolveStartupCapabilities_def)

text \<open>
  Claim C9. Capability resolution is defined on every descriptor. For a descriptor that
  is present, \<open>HasHooks\<close> holds exactly when it has a hooks section whose provider is
  neither empty nor \<open>none\<close> and which is not informational (the helper
  \<open>hasExecutableHooks\<close> of the earlier revision computes the same), and \<open>HasPrompt\<close>
  holds exactly when the prompt mode is not \<open>none\<close>. A nil descriptor is resolved as
  the default descriptor, which has hooks and a prompt, so that the fallback matrix
  asks for nothing.
\<close>

theorem capabilities_resolved:
  "(HasHooks (resolveStartupCapabilities (Some rc)) \<longleftrightarrow>
      (\<exists>h. Hooks rc = Some h \<and> Provider h \<noteq> [] \<and> Provider h \<noteq> ''none'' \<and> \<not> Informational h))
   \<and> (HasPrompt (resolveStartupCapabilities (Some rc)) \<longleftrightarrow> PromptMode rc \<noteq> ''none'')
   \<and> hasExecutableHooks (Some rc) = HasHooks (resolveStartupCapabilities (Some rc))
   \<and> resolveStartupCapabilities None = resolveStartupCapabilities (Some DefaultRuntimeConfig)
   \<and> resolveStartupCapabilities None = \<lparr>HasHooks = True, HasPrompt = True\<rparr>
   \<and> GetStartupFallbackInfo None =
       \<lparr>IncludePrimeInBeacon = False, SendBeaconNudge = False,
        SendStartupNudge = False, StartupNudgeDelayMs = 0\<rparr>"
  by (auto simp: resolveStartupCapabilities_def orDefault_def hasExecutableHooks_def
      DefaultRuntimeConfig_def GetStartupFallbackInfo_def Let_def split: option.splits)

text \<open>
  An instance: informational hooks of provider \<open>copilot\<close> with prompt mode \<open>arg\<close>
  count as no hooks, with a prompt.
\<close>

theorem capabilities_resolved_witness:
  "resolveStartupCapabilities
     (Some \<lparr>PromptMode = ''arg'',
            Hooks = Some \<lparr>Provider = ''copilot'', Informational = True\<rparr>,
            Tmux = None\<rparr>)
     = \<lparr>HasHooks = False, HasPrompt = True\<rparr>
   \<and> resolveStartupCapabilities None = \<lparr>HasHooks = True, HasPrompt = True\<rparr>"
  using capabilities_resolved
    [of "\<lparr>PromptMode = ''arg'',
          Hooks = Some \<lparr>Provider = ''copilot'', Informational = True\<rparr>,
          Tmux = None\<rparr>"]
  by (simp add: resolveStartupCapabilities_def orDefault_def)

text \<open>
  Claim C1. For every runtime descriptor, the fallback matrix gives one of four
  outcomes, chosen by the resolved capabilities alone: hooks and prompt give
  (false, false, false, 0); hooks without prompt give (false, true, true, 0); prompt
  without hooks gives (true, false, true, 2000); neither gives (true, true, true, 2000).
  In particular the delay is 2000 ms whenever hooks are absent.
\<close>

theorem fallback_matrix:
  "GetStartupFallbackInfo rc =
     (if HasHooks (resolveStartupCapabilities rc) then
        (if HasPrompt (resolveStartupCapabilities rc)
         then \<lparr>IncludePrimeInBeacon = False, SendBeaconNudge = False,
               SendStartupNudge = False, StartupNudgeDelayMs = 0\<rparr>
         else \<lparr>IncludePrimeInBeacon = False, SendBeaconNudge = True,
               SendStartupNudge = True, StartupNudgeDelayMs = 0\<rparr>)
      else
        (if HasPrompt (resolveStartupCapabilities rc)
         then \<lparr>IncludePrimeInBeacon = True, SendBeaconNudge = False,
               SendStartupNudge = True, StartupNudgeDelayMs = 2000\<rparr>
         else \<lparr>IncludePrimeInBeacon = True, SendBeaconNudge = True,
               SendStartupNudge = True, StartupNudgeDelayMs = 2000\<rparr>))
   \<and> (\<not> HasHooks (resolveStartupCapabilities rc) \<longrightarrow>
        StartupNudgeDelayMs (GetStartupFallbackInfo rc) = 2000)"
  by (simp add: GetStartupFallbackInfo_def Let_def DefaultPrimeWaitMs_def)

text \<open>The four rows, at the descriptors of the package's tests.\<close>

theorem fallback_matrix_witness:
  "GetStartupFallbackInfo
     (Some \<lparr>PromptMode = ''arg'',
            Hooks = Some \<lparr>Provider = ''claude'', Informational = False\<rparr>, Tmux = None\<rparr>)
     = \<lparr>IncludePrimeInBeacon = False, SendBeaconNudge = False,
        SendStartupNudge = False, StartupNudgeDelayMs = 0\<rparr>
   \<and> GetStartupFallbackInfo
     (Some \<lparr>PromptMode = ''none'',
            Hooks = Some \<lparr>Provider = ''claude'', Informational = False\<rparr>, Tmux = None\<rparr>)
     = \<lparr>IncludePrimeInBeacon = False, SendBeaconNudge = True,
        SendStartupNudge = True, StartupNudgeDelayMs = 0\<rparr>
   \<and> GetStartupFallbackInfo
     (Some \<lparr>PromptMode = ''arg'',
            Hooks = Some \<lparr>Provider = ''none'', Informational = False\<rparr>, Tmux = None\<rparr>)
     = \<lparr>IncludePrimeInBeacon = True, SendBeaconNudge = False,
        SendStartupNudge = True, StartupNudgeDelayMs = 2000\<rparr>
   \<and> GetStartupFallbackInfo
     (Some \<lparr>PromptMode = ''none'',
            Hooks = Some \<lparr>Provider = ''none'', Informational = False\<rparr>, Tmux = None\<rparr>)
     = \<lparr>IncludePrimeInBeacon = True, SendBeaconNudge = True,
        SendStartupNudge = True, StartupNudgeDelayMs = 2000\<rparr>"
  using
    fallback_matrix [of "Some \<lparr>PromptMode = ''arg'',
      Hooks = Some \<lparr>Provider = ''claude'', Informational = False\<rparr>, Tmux = None\<rparr>"]
    fallback_matrix [of "Some \<lparr>PromptMode = ''none'',
      Hooks = Some \<lparr>Provider = ''claude'', Informational = False\<rparr>, Tmux = None\<rparr>"]
    fallback_matrix [of "Some \<lparr>PromptMode = ''arg'',
      Hooks = Some \<lparr>Provider = ''none'', Informational = False\<rparr>, Tmux = None\<rparr>"]
    fallback_matrix [of "Some \<lparr>PromptMode = ''none'',
      Hooks = Some \<lparr>Provider = ''none'', Informational = False\<rparr>, Tmux = None\<rparr>"]
  by (simp add: resolveStartupCapabilities_def orDefault_def)

subsection \<open>The contract builder\<close>

lemma info_hooks_no_prompt:
  "HasHooks (resolveStartupCapabilities rc) \<Longrightarrow> \<not> HasPrompt (resolveStartupCapabilities rc) \<Longrightarrow>
   GetStartupFallbackInfo rc =
     \<lparr>IncludePrimeInBeacon = False, SendBeaconNudge = True,
      SendStartupNudge = True, StartupNudgeDelayMs = 0\<rparr>"
  by (simp add: GetStartupFallbackInfo_def Let_def)

lemma info_no_hooks_no_prompt:
  "\<not> HasHooks (resolveStartupCapabilities rc) \<Longrightarrow> \<not> HasPrompt (resolveStartupCapabilities rc) \<Longrightarrow>
   GetStartupFallbackInfo rc =
     \<lparr>IncludePrimeInBeacon = True, SendBeaconNudge = True,
      SendStartupNudge = True, StartupNudgeDelayMs = 2000\<rparr>"
  by (simp add: GetStartupFallbackInfo_def Let_def DefaultPrimeWaitMs_def)

text \<open>
  Claim C2. For every descriptor with hooks and without prompt, and every spec whose
  beacon and startup texts are both non-empty and which does not ask for the fallback
  commands, the contract has exactly one step: a nudge whose command is the beacon
  text, two newline characters, and the startup text.
\<close>

theorem combined_nudge_contract:
  assumes "HasHooks (resolveStartupCapabilities rc)"
    and "\<not> HasPrompt (resolveStartupCapabilities rc)"
    and "BeaconMessage spec \<noteq> []" and "StartupNudgeMessage spec \<noteq> []"
    and "\<not> IncludeFallbackCommands spec"
  shows "Steps (BuildStartupBootstrapContract plan spec rc) =
     [\<lparr>Kind = StartupBootstrapStepNudge, Delay = 0,
       Command = BeaconMessage spec @ [CHR 0x0A, CHR 0x0A] @ StartupNudgeMessage spec\<rparr>]"
  using assms
  by (simp add: BuildStartupBootstrapContract_def Let_def info_hooks_no_prompt NudgeStep_def)

theorem combined_nudge_contract_witness:
  "Steps (BuildStartupBootstrapContract
      (\<lambda>r. \<lparr>PrePrimeCommand = [], PrimeCommand = [], AutoMailInject = False,
             PromptlessCommand = []\<rparr>)
      \<lparr>Role = ''polecat'', BeaconMessage = ''beacon'', StartupNudgeMessage = ''startup'',
       IncludeFallbackCommands = False, ReadyDelayApplied = False\<rparr>
      (Some \<lparr>PromptMode = ''none'',
             Hooks = Some \<lparr>Provider = ''claude'', Informational = False\<rparr>, Tmux = None\<rparr>))
   = [\<lparr>Kind = ''nudge'', Delay = 0,
       Command = ''beacon'' @ [CHR 0x0A, CHR 0x0A] @ ''startup''\<rparr>]"
  using combined_nudge_contract
    [of "Some \<lparr>PromptMode = ''none'',
               Hooks = Some \<lparr>Provider = ''claude'', Informational = False\<rparr>, Tmux = None\<rparr>"
        "\<lparr>Role = ''polecat'', BeaconMessage = ''beacon'', StartupNudgeMessage = ''startup'',
          IncludeFallbackCommands = False, ReadyDelayApplied = False\<rparr>"
        "\<lambda>r. \<lparr>PrePrimeCommand = [], PrimeCommand = [], AutoMailInject = False,
              PromptlessCommand = []\<rparr>"]
  by (simp add: resolveStartupCapabilities_def orDefault_def StartupBootstrapStepNudge_def)

text \<open>
  Claim C3. For every descriptor without hooks and without prompt, and every spec whose
  beacon and startup texts are both non-empty and which does not ask for the fallback
  commands, the steps of the contract are, in this order: a nudge with the beacon
  text, a wait of 2000 ms, a nudge with the startup text.
\<close>

theorem delayed_startup_contract:
  assumes "\<not> HasHooks (resolveStartupCapabilities rc)"
    and "\<not> HasPrompt (resolveStartupCapabilities rc)"
    and "BeaconMessage spec \<noteq> []" and "StartupNudgeMessage spec \<noteq> []"
    and "\<not> IncludeFallbackCommands spec"
  shows "Steps (BuildStartupBootstrapContract plan spec rc) =
     [\<lparr>Kind = StartupBootstrapStepNudge, Delay = 0, Command = BeaconMessage spec\<rparr>,
      \<lparr>Kind = StartupBootstrapStepWait, Delay = 2000 * Millisecond, Command = []\<rparr>,
      \<lparr>Kind = StartupBootstrapStepNudge, Delay = 0, Command = StartupNudgeMessage spec\<rparr>]"
  using assms
  by (simp add: BuildStartupBootstrapContract_def Let_def info_no_hooks_no_prompt
      NudgeStep_def WaitStep_def)

text \<open>The wait is 2000000000 ns.\<close>

theorem delayed_startup_contract_witness:
  "Steps (BuildStartupBootstrapContract
      (\<lambda>r. \<lparr>PrePrimeCommand = [], PrimeCommand = [], AutoMailInject = False,
             PromptlessCommand = []\<rparr>)
      \<lparr>Role = ''polecat'', BeaconMessage = ''beacon'', StartupNudgeMessage = ''startup'',
       IncludeFallbackCommands = False, ReadyDelayApplied = False\<rparr>
      (Some \<lparr>PromptMode = ''none'',
             Hooks = Some \<lparr>Provider = ''none'', Informational = False\<rparr>, Tmux = None\<rparr>))
   = [\<lparr>Kind = ''nudge'', Delay = 0, Command = ''beacon''\<rparr>,
      \<lparr>Kind = ''wait'', Delay = 2000000000, Command = []\<rparr>,
      \<lparr>Kind = ''nudge'', Delay = 0, Command = ''startup''\<rparr>]"
  using delayed_startup_contract
    [of "Some \<lparr>PromptMode = ''none'',
               Hooks = Some \<lparr>Provider = ''none'', Informational = False\<rparr>, Tmux = None\<rparr>"
        "\<lparr>Role = ''polecat'', BeaconMessage = ''beacon'', StartupNudgeMessage = ''startup'',
          IncludeFallbackCommands = False, ReadyDelayApplied = False\<rparr>"
        "\<lambda>r. \<lparr>PrePrimeCommand = [], PrimeCommand = [], AutoMailInject = False,
              PromptlessCommand = []\<rparr>"]
  by (simp add: resolveStartupCapabilities_def orDefault_def StartupBootstrapStepNudge_def
      StartupBootstrapStepWait_def Millisecond_def)

subsection \<open>Fallback commands by role\<close>

lemma ToLower_roles:
  "ToLower ''boot'' = ''boot''"
  "ToLower ''polecat'' = ''polecat''" "ToLower ''witness'' = ''witness''"
  "ToLower ''refinery'' = ''refinery''" "ToLower ''deacon'' = ''deacon''"
  "ToLower ''mayor'' = ''mayor''" "ToLower ''crew'' = ''crew''"
  by (simp_all add: ToLower_def lowerChar_def)

lemma inline_commands:
  assumes "\<not> HasHooks (resolveStartupCapabilities rc)"
  shows "StartupFallbackCommands_inline ''boot'' rc = [''gt prime && gt boot triage'']"
    and "StartupFallbackCommands_inline ''polecat'' rc = [''gt prime && gt mail check --inject'']"
    and "StartupFallbackCommands_inline ''witness'' rc = [''gt prime && gt mail check --inject'']"
    and "StartupFallbackCommands_inline ''refinery'' rc = [''gt prime && gt mail check --inject'']"
    and "StartupFallbackCommands_inline ''deacon'' rc =
           [deaconHeartbeat @ ''gt prime && gt mail check --inject'']"
    and "StartupFallbackCommands_inline ''mayor'' rc = [''gt prime'']"
    and "StartupFallbackCommands_inline ''crew'' rc = [''gt prime'']"
  using assms
  by (simp_all add: StartupFallbackCommands_inline_def Let_def hasExecutableHooks_orDefault
      ToLower_roles isAutonomousRole_def)

lemma inline_with_hooks:
  "HasHooks (resolveStartupCapabilities rc) \<Longrightarrow> StartupFallbackCommands_inline role rc = []"
  by (simp add: StartupFallbackCommands_inline_def Let_def hasExecutableHooks_orDefault)

lemma plan_with_hooks:
  "HasHooks (resolveStartupCapabilities rc) \<Longrightarrow> StartupFallbackCommands plan role rc = []"
  by (simp add: StartupFallbackCommands_def Let_def)

lemma mail_in_commands:
  "sublist ''mail check --inject'' ''gt prime && gt mail check --inject''"
  "sublist ''mail check --inject'' (deaconHeartbeat @ ''gt prime && gt mail check --inject'')"
  "\<not> sublist ''mail check --inject'' ''gt prime''"
  "\<not> sublist ''mail check --inject'' ''gt prime && gt boot triage''"
  "sublist ''mail check --inject'' ''gt mail check --inject''"
  by (simp_all add: deaconHeartbeat_def sublist_Cons_right)

text \<open>A text inside one of the joined parts is inside the joined command.\<close>

lemma sublist_Join:
  "p \<in> set parts \<Longrightarrow> sublist x p \<Longrightarrow> sublist x (Join parts sep)"
proof (induction parts sep rule: Join.induct)
  case (1 sep)
  then show ?case by simp
next
  case (2 y sep)
  then show ?case by simp
next
  case (3 y z zs sep)
  show ?case
  proof (cases "p = y")
    case True
    have "sublist y (y @ sep @ Join (z # zs) sep)" by simp
    with True "3.prems"(2) show ?thesis
      using sublist_order.order_trans by fastforce
  next
    case False
    with "3.prems" have "sublist x (Join (z # zs) sep)"
      by (intro "3.IH") auto
    then have "sublist x (y @ sep @ Join (z # zs) sep)"
      by (metis sublist_append_leftI sublist_order.order_trans)
    then show ?thesis by simp
  qed
qed

text \<open>
  The composition of \<^verbatim>\<open>runtime.go\<close>, for any role table: a role that the table marks
  for mail injection gets it, and the prompt capability matters only through the
  promptless command of the role.
\<close>

lemma plan_mail:
  assumes "\<not> HasHooks (resolveStartupCapabilities rc)" and "AutoMailInject (plan role)"
  shows "\<exists>c. StartupFallbackCommands plan role rc = [c] \<and> sublist ''mail check --inject'' c"
  using assms
  by (auto simp: StartupFallbackCommands_def Let_def simp del: Join.simps
      intro!: sublist_Join [OF _ mail_in_commands(5)])

lemma plan_prompt_independent:
  assumes "\<not> HasHooks (resolveStartupCapabilities rc1)"
    and "\<not> HasHooks (resolveStartupCapabilities rc2)"
    and "PromptlessCommand (plan role) = []"
  shows "StartupFallbackCommands plan role rc1 = StartupFallbackCommands plan role rc2"
  using assms by (simp add: StartupFallbackCommands_def Let_def)

text \<open>
  Claim C4. For every descriptor without executable hooks, the fallback command of
  role \<open>boot\<close> is exactly \<open>gt prime && gt boot triage\<close>, whatever the prompt capability
  of the descriptor; it holds no \<open>mail check --inject\<close>, although \<open>boot\<close> is one of
  the roles \<open>isAutonomousRole\<close> accepts. (The function with the rule for \<open>boot\<close> is
  the one of \<^verbatim>\<open>unnamed/part_001\<close>.)
\<close>

theorem boot_fallback_command:
  assumes "\<not> HasHooks (resolveStartupCapabilities rc)"
  shows "StartupFallbackCommands_inline ''boot'' rc = [''gt prime && gt boot triage'']
     \<and> list_all (\<lambda>c. \<not> sublist ''mail check --inject'' c)
          (StartupFallbackCommands_inline ''boot'' rc)
     \<and> isAutonomousRole ''boot''"
  using assms
  by (simp add: inline_commands(1) mail_in_commands(4) isAutonomousRole_def)

text \<open>Two descriptors without hooks: one with a prompt, one without.\<close>

theorem boot_fallback_command_witness:
  "StartupFallbackCommands_inline ''boot''
     (Some \<lparr>PromptMode = ''arg'',
            Hooks = Some \<lparr>Provider = ''none'', Informational = False\<rparr>, Tmux = None\<rparr>)
     = [''gt prime && gt boot triage'']
   \<and> StartupFallbackCommands_inline ''boot''
     (Some \<lparr>PromptMode = ''none'', Hooks = None, Tmux = None\<rparr>)
     = [''gt prime && gt boot triage'']"
  using
    boot_fallback_command [of "Some \<lparr>PromptMode = ''arg'',
      Hooks = Some \<lparr>Provider = ''none'', Informational = False\<rparr>, Tmux = None\<rparr>"]
    boot_fallback_command [of "Some \<lparr>PromptMode = ''none'', Hooks = None, Tmux = None\<rparr>"]
  by (simp add: resolveStartupCapabilities_def orDefault_def)

text \<open>
  Claim C5. For every descriptor without executable hooks, the fallback command of each
  of the roles \<open>polecat\<close>, \<open>witness\<close>, \<open>refinery\<close> and \<open>deacon\<close> contains
  \<open>mail check --inject\<close>, and the one of \<open>mayor\<close> and of \<open>crew\<close> does not. For every
  descriptor with executable hooks, the list of fallback commands is empty for every
  role, in both revisions. In \<^verbatim>\<open>runtime.go\<close>, whose role table is a parameter here, a
  role marked for mail injection gets it.
\<close>

theorem mail_injection_by_role:
  "(\<not> HasHooks (resolveStartupCapabilities rc) \<longrightarrow>
      (\<forall>role \<in> {''polecat'', ''witness'', ''refinery'', ''deacon''}.
          \<exists>c. StartupFallbackCommands_inline role rc = [c] \<and> sublist ''mail check --inject'' c)
    \<and> (\<forall>role \<in> {''mayor'', ''crew''}.
          \<exists>c. StartupFallbackCommands_inline role rc = [c]
            \<and> \<not> sublist ''mail check --inject'' c))
   \<and> (HasHooks (resolveStartupCapabilities rc) \<longrightarrow>
        StartupFallbackCommands_inline role rc = [] \<and> StartupFallbackCommands plan role rc = [])
   \<and> (\<not> HasHooks (resolveStartupCapabilities rc) \<and> AutoMailInject (plan role) \<longrightarrow>
        (\<exists>c. StartupFallbackCommands plan role rc = [c] \<and> sublist ''mail check --inject'' c))"
  by (simp add: inline_commands mail_in_commands inline_with_hooks plan_with_hooks plan_mail)

text \<open>
  At the descriptors of the package's tests: provider \<open>none\<close> for the six roles,
  provider \<open>claude\<close> and the nil descriptor for the empty list.
\<close>

theorem mail_injection_by_role_witness:
  "StartupFallbackCommands_inline ''polecat''
     (Some \<lparr>PromptMode = [], Hooks = Some \<lparr>Provider = ''none'', Informational = False\<rparr>,
            Tmux = None\<rparr>)
     = [''gt prime && gt mail check --inject'']
   \<and> StartupFallbackCommands_inline ''crew''
     (Some \<lparr>PromptMode = [], Hooks = Some \<lparr>Provider = ''none'', Informational = False\<rparr>,
            Tmux = None\<rparr>)
     = [''gt prime'']
   \<and> StartupFallbackCommands_inline ''polecat''
     (Some \<lparr>PromptMode = [], Hooks = Some \<lparr>Provider = ''claude'', Informational = False\<rparr>,
            Tmux = None\<rparr>)
     = []
   \<and> StartupFallbackCommands_inline ''polecat'' None = []"
  using
    mail_injection_by_role [of "Some \<lparr>PromptMode = [],
      Hooks = Some \<lparr>Provider = ''none'', Informational = False\<rparr>, Tmux = None\<rparr>"]
    mail_injection_by_role [of "Some \<lparr>PromptMode = [],
      Hooks = Some \<lparr>Provider = ''claude'', Informational = False\<rparr>, Tmux = None\<rparr>" "''polecat''"]
    mail_injection_by_role [of None "''polecat''"]
  by (simp add: StartupFallbackCommands_inline_def Let_def hasExecutableHooks_def
      orDefault_def DefaultRuntimeConfig_def ToLower_roles isAutonomousRole_def)

subsection \<open>The in-process executor\<close>

text \<open>Running a list of steps after another: the first error ends the run.\<close>

lemma runSteps_append:
  "runSteps n sl sess (xs @ ys) s =
     (case runSteps n sl sess xs s of
        (Some e, s') \<Rightarrow> (Some e, s')
      | (None, s') \<Rightarrow> runSteps n sl sess ys s')"
  by (induction xs arbitrary: s) (auto split: prod.splits option.splits)

lemma kinds_differ: "StartupBootstrapStepNudge \<noteq> StartupBootstrapStepWait"
  by (simp add: StartupBootstrapStepNudge_def StartupBootstrapStepWait_def)

text \<open>
  One step in the recording world: its calls are appended, and a failed nudge returns
  at once.
\<close>

lemma runSteps_recording_step:
  "runSteps (recordingNudger fails) recordingSleep sess (step # rest) calls =
     (if Kind step = StartupBootstrapStepNudge \<and> Command step \<noteq> []
         \<and> fails sess (Command step) calls \<noteq> None
      then (fails sess (Command step) calls, calls @ stepCalls sess step)
      else runSteps (recordingNudger fails) recordingSleep sess rest
             (calls @ stepCalls sess step))"
  using kinds_differ
  by (auto simp: stepCalls_def recordingNudger_def recordingSleep_def split: option.splits)

lemma runSteps_recording_calls:
  "runSteps (recordingNudger fails) recordingSleep sess steps calls = (None, calls') \<Longrightarrow>
   calls' = calls @ concat (map (stepCalls sess) steps)"
proof (induction steps arbitrary: calls)
  case Nil
  then show ?case by simp
next
  case (Cons step rest)
  from Cons.prems have
    "runSteps (recordingNudger fails) recordingSleep sess rest (calls @ stepCalls sess step)
       = (None, calls')"
    by (simp only: runSteps_recording_step split: if_splits) auto
  from Cons.IH [OF this] show ?case by simp
qed

lemma runSteps_recording_ok:
  "(\<And>m h. fails sess m h = None) \<Longrightarrow>
   runSteps (recordingNudger fails) recordingSleep sess steps calls =
     (None, calls @ concat (map (stepCalls sess) steps))"
proof (induction steps arbitrary: calls)
  case Nil
  then show ?case by simp
next
  case (Cons step rest)
  show ?case
    by (simp only: runSteps_recording_step Cons.prems Cons.IH [OF Cons.prems]) simp
qed

lemma runSteps_recording_abort:
  assumes "runSteps (recordingNudger fails) recordingSleep sess pre calls = (None, callsPre)"
    and "Kind step = StartupBootstrapStepNudge" and "Command step \<noteq> []"
    and "fails sess (Command step) callsPre = Some e"
  shows "runSteps (recordingNudger fails) recordingSleep sess (pre @ step # post) calls =
     (Some e, calls @ concat (map (stepCalls sess) pre) @ [NudgeCall sess (Command step)])"
proof -
  have c1: "callsPre = calls @ concat (map (stepCalls sess) pre)"
    using assms(1) by (rule runSteps_recording_calls)
  have "runSteps (recordingNudger fails) recordingSleep sess (step # post) callsPre =
      (Some e, callsPre @ [NudgeCall sess (Command step)])"
    using assms(2-4)
    by (simp add: runSteps_recording_step stepCalls_def kinds_differ del: runSteps.simps)
  then show ?thesis
    using assms(1) c1 by (simp add: runSteps_append)
qed

text \<open>A skipped step changes neither the result nor the world.\<close>

lemma runSteps_filter_skipped:
  "runSteps n sl sess (filter (\<lambda>st. \<not> skippedStep st) steps) s = runSteps n sl sess steps s"
  by (induction steps arbitrary: s)
     (auto simp: skippedStep_def kinds_differ split: prod.splits option.splits)

lemma runSteps_all_skipped:
  "list_all skippedStep steps \<Longrightarrow> runSteps n sl sess steps s = (None, s)"
  by (induction steps) (auto simp: skippedStep_def kinds_differ)

lemma example_run:
  "executeStartupBootstrapContract ts (recordingNudger (\<lambda>_ _ _. None)) ''session''
     (Some \<lparr>Info = None, Steps = [WaitStep (3 * Millisecond), NudgeStep ''one'',
        WaitStep (1 * Millisecond), NudgeStep ''two'']\<rparr>) (Some recordingSleep) []
   = (None, [SleepCall (3 * Millisecond), NudgeCall ''session'' ''one'',
             SleepCall (1 * Millisecond), NudgeCall ''session'' ''two''])"
  by (simp add: executeStartupBootstrapContract_def WaitStep_def NudgeStep_def
      StartupBootstrapStepNudge_def StartupBootstrapStepWait_def Millisecond_def
      recordingNudger_def recordingSleep_def)

text \<open>
  Claim C6. The in-process executor goes through the steps in their order. In the
  recording world: a run that returns no error has made, after the calls made before,
  exactly the calls of its steps in order, where a wait calls the sleep function with
  its delay only when the delay is positive and a nudge with a non-empty command calls
  \<open>NudgeSession\<close> with the session and the command; with a nudger that never fails
  every run is such a run. When the steps before a nudge ran without error and the
  nudge fails, the run returns that error, and its calls end with the failed nudge:
  no later step is performed. The steps \<open>Wait 3ms, Nudge one, Wait 1ms, Nudge two\<close>
  with a nudger that never fails give the calls \<open>sleep 3ms, nudge one, sleep 1ms,
  nudge two\<close>.
\<close>

theorem executor_call_order:
  fixes fails :: "string \<Rightarrow> string \<Rightarrow> call list \<Rightarrow> 'e option"
  shows
  "(executeStartupBootstrapContract ts (recordingNudger fails) sess (Some c)
        (Some recordingSleep) calls = (None, calls')
      \<longrightarrow> calls' = calls @ concat (map (stepCalls sess) (Steps c)))
   \<and> ((\<forall>m h. fails sess m h = None) \<longrightarrow>
        executeStartupBootstrapContract ts (recordingNudger fails) sess (Some c)
          (Some recordingSleep) calls
        = (None, calls @ concat (map (stepCalls sess) (Steps c))))
   \<and> (Steps c = pre @ step # post
        \<and> executeStartupBootstrapContract ts (recordingNudger fails) sess
            (Some (c\<lparr>Steps := pre\<rparr>)) (Some recordingSleep) calls = (None, callsPre)
        \<and> Kind step = StartupBootstrapStepNudge \<and> Command step \<noteq> []
        \<and> fails sess (Command step) callsPre = Some e \<longrightarrow>
        executeStartupBootstrapContract ts (recordingNudger fails) sess (Some c)
          (Some recordingSleep) calls
        = (Some e, calls @ concat (map (stepCalls sess) pre) @ [NudgeCall sess (Command step)]))
   \<and> executeStartupBootstrapContract ts
        (recordingNudger ((\<lambda>_ _ _. None) :: string \<Rightarrow> string \<Rightarrow> call list \<Rightarrow> 'e option))
        ''session''
        (Some \<lparr>Info = None, Steps = [WaitStep (3 * Millisecond), NudgeStep ''one'',
           WaitStep (1 * Millisecond), NudgeStep ''two'']\<rparr>) (Some recordingSleep) []
      = (None, [SleepCall (3 * Millisecond), NudgeCall ''session'' ''one'',
                SleepCall (1 * Millisecond), NudgeCall ''session'' ''two''])"
proof (intro conjI impI)
  assume "executeStartupBootstrapContract ts (recordingNudger fails) sess (Some c)
        (Some recordingSleep) calls = (None, calls')"
  then show "calls' = calls @ concat (map (stepCalls sess) (Steps c))"
    by (simp add: executeStartupBootstrapContract_def runSteps_recording_calls)
next
  assume "\<forall>m h. fails sess m h = None"
  then show "executeStartupBootstrapContract ts (recordingNudger fails) sess (Some c)
          (Some recordingSleep) calls
        = (None, calls @ concat (map (stepCalls sess) (Steps c)))"
    by (simp add: executeStartupBootstrapContract_def runSteps_recording_ok)
next
  assume a: "Steps c = pre @ step # post
        \<and> executeStartupBootstrapContract ts (recordingNudger fails) sess
            (Some (c\<lparr>Steps := pre\<rparr>)) (Some recordingSleep) calls = (None, callsPre)
        \<and> Kind step = StartupBootstrapStepNudge \<and> Command step \<noteq> []
        \<and> fails sess (Command step) callsPre = Some e"
  then have "runSteps (recordingNudger fails) recordingSleep sess pre calls = (None, callsPre)"
    by (simp add: executeStartupBootstrapContract_def)
  from runSteps_recording_abort [OF this, of step e post] a
  show "executeStartupBootstrapContract ts (recordingNudger fails) sess (Some c)
          (Some recordingSleep) calls
        = (Some e, calls @ concat (map (stepCalls sess) pre) @ [NudgeCall sess (Command step)])"
    by (simp add: executeStartupBootstrapContract_def)
next
  show "executeStartupBootstrapContract ts
        (recordingNudger ((\<lambda>_ _ _. None) :: string \<Rightarrow> string \<Rightarrow> call list \<Rightarrow> 'e option))
        ''session''
        (Some \<lparr>Info = None, Steps = [WaitStep (3 * Millisecond), NudgeStep ''one'',
           WaitStep (1 * Millisecond), NudgeStep ''two'']\<rparr>) (Some recordingSleep) []
      = (None, [SleepCall (3 * Millisecond), NudgeCall ''session'' ''one'',
                SleepCall (1 * Millisecond), NudgeCall ''session'' ''two''])"
    by (rule example_run)
qed

text \<open>A nudger that loses the session at the message \<open>one\<close>: two calls, then the error.\<close>

theorem executor_call_order_witness:
  "executeStartupBootstrapContract recordingSleep
     (recordingNudger (\<lambda>sess m h. if m = ''one'' then Some ''session lost'' else None))
     ''session''
     (Some \<lparr>Info = None, Steps = [WaitStep (3 * Millisecond), NudgeStep ''one'',
        WaitStep (1 * Millisecond), NudgeStep ''two'']\<rparr>) (Some recordingSleep) []
   = (Some ''session lost'', [SleepCall (3 * Millisecond), NudgeCall ''session'' ''one''])"
  using executor_call_order
    [where fails = "\<lambda>sess m h. if m = ''one'' then Some ''session lost'' else None"
       and ts = recordingSleep and sess = "''session''" and calls = "[]"
       and c = "\<lparr>Info = None, Steps = [WaitStep (3 * Millisecond), NudgeStep ''one'',
                  WaitStep (1 * Millisecond), NudgeStep ''two'']\<rparr>"
       and pre = "[WaitStep (3 * Millisecond)]" and step = "NudgeStep ''one''"
       and post = "[WaitStep (1 * Millisecond), NudgeStep ''two'']"
       and callsPre = "[SleepCall (3 * Millisecond)]" and e = "''session lost''"]
  by (simp add: executeStartupBootstrapContract_def WaitStep_def NudgeStep_def
      StartupBootstrapStepNudge_def StartupBootstrapStepWait_def Millisecond_def
      recordingNudger_def recordingSleep_def stepCalls_def)

text \<open>
  Claim C10. The executor returns on every input. On a nil contract it returns no
  error and leaves the world as it is, whatever the nudger and the sleep function. A
  nil sleep function stands for \<^verbatim>\<open>time.Sleep\<close>. A wait whose delay is zero or
  negative and a nudge whose command is empty are skipped: a contract runs as the
  contract without them does, a contract of such steps only changes nothing, and such
  a step makes no call.
\<close>

theorem executor_edges:
  "executeStartupBootstrapContract ts nudge sess None sleepFn s = (None, s)
   \<and> executeStartupBootstrapContract ts nudge sess contract None s
       = executeStartupBootstrapContract ts nudge sess contract (Some ts) s
   \<and> executeStartupBootstrapContract ts nudge sess (Some c) sleepFn s
       = executeStartupBootstrapContract ts nudge sess
           (Some (c\<lparr>Steps := filter (\<lambda>st. \<not> skippedStep st) (Steps c)\<rparr>)) sleepFn s
   \<and> (list_all skippedStep (Steps c) \<longrightarrow>
        executeStartupBootstrapContract ts nudge sess (Some c) sleepFn s = (None, s))
   \<and> (sint d \<le> 0 \<longrightarrow> skippedStep (WaitStep d) \<and> stepCalls sess (WaitStep d) = [])
   \<and> skippedStep (NudgeStep []) \<and> stepCalls sess (NudgeStep []) = []"
proof -
  have nil_contract: "executeStartupBootstrapContract ts nudge sess None sleepFn s = (None, s)"
    by (simp add: executeStartupBootstrapContract_def)
  have nil_sleep: "executeStartupBootstrapContract ts nudge sess contract None s
       = executeStartupBootstrapContract ts nudge sess contract (Some ts) s"
    by (cases contract) (simp_all add: executeStartupBootstrapContract_def)
  have filtered: "executeStartupBootstrapContract ts nudge sess (Some c) sleepFn s
       = executeStartupBootstrapContract ts nudge sess
           (Some (c\<lparr>Steps := filter (\<lambda>st. \<not> skippedStep st) (Steps c)\<rparr>)) sleepFn s"
    by (simp add: executeStartupBootstrapContract_def runSteps_filter_skipped)
  have all_skipped: "list_all skippedStep (Steps c) \<longrightarrow>
        executeStartupBootstrapContract ts nudge sess (Some c) sleepFn s = (None, s)"
    by (simp add: executeStartupBootstrapContract_def runSteps_all_skipped)
  have wait: "sint d \<le> 0 \<longrightarrow> skippedStep (WaitStep d) \<and> stepCalls sess (WaitStep d) = []"
    by (simp add: skippedStep_def stepCalls_def WaitStep_def)
  have nudge: "skippedStep (NudgeStep []) \<and> stepCalls sess (NudgeStep []) = []"
    by (simp add: skippedStep_def stepCalls_def NudgeStep_def kinds_differ)
  from nil_contract nil_sleep filtered all_skipped wait nudge show ?thesis
    by blast
qed

text \<open>With a nudger that always fails: skipped steps and a nil contract never reach it.\<close>

theorem executor_edges_witness:
  "executeStartupBootstrapContract recordingSleep
     (recordingNudger (\<lambda>sess m h. Some ''session lost'')) ''session''
     (Some \<lparr>Info = None, Steps = [WaitStep 0, NudgeStep [], WaitStep (- Millisecond)]\<rparr>)
     None []
   = (None, [])
   \<and> executeStartupBootstrapContract recordingSleep
     (recordingNudger (\<lambda>sess m h. Some ''session lost'')) ''session'' None None []
   = (None, [])"
proof -
  have skipped: "list_all skippedStep [WaitStep 0, NudgeStep [], WaitStep (- Millisecond)]"
    by (simp add: skippedStep_def WaitStep_def NudgeStep_def Millisecond_def)
  note edges = executor_edges
    [where ts = recordingSleep and nudge = "recordingNudger (\<lambda>sess m h. Some ''session lost'')"
       and sess = "''session''" and sleepFn = None and s = "[]" and contract = None and d = 0
       and c = "\<lparr>Info = None, Steps = [WaitStep 0, NudgeStep [], WaitStep (- Millisecond)]\<rparr>"]
  have nil_contract: "executeStartupBootstrapContract recordingSleep
     (recordingNudger (\<lambda>sess m h. Some ''session lost'')) ''session'' None None []
     = (None, [])"
    using edges by blast
  have "list_all skippedStep
          (Steps \<lparr>Info = None, Steps = [WaitStep 0, NudgeStep [], WaitStep (- Millisecond)]\<rparr>)
     \<longrightarrow> executeStartupBootstrapContract recordingSleep
     (recordingNudger (\<lambda>sess m h. Some ''session lost'')) ''session''
     (Some \<lparr>Info = None, Steps = [WaitStep 0, NudgeStep [], WaitStep (- Millisecond)]\<rparr>)
     None [] = (None, [])"
    using edges by blast
  with skipped nil_contract show ?thesis by simp
qed

subsection \<open>Detached scheduling\<close>

lemma script_shape:
  "buildDeferredNudgeScript q f sess cmd d =
     (if 0 < sint d then ''sleep '' @ f d @ '' && '' else [])
     @ ''tmux send-keys -t '' @ q sess @ '' -l '' @ q cmd
     @ '' && '' @ ''tmux send-keys -t '' @ q sess @ '' Enter''"
  by (simp add: buildDeferredNudgeScript_def Let_def)

text \<open>
  One command with the recording runner: its script is submitted, and a failed
  submission returns at once, wrapped with the session.
\<close>

lemma scheduleLoop_recording_step:
  "scheduleLoop q f (recordingRunner fails) sess (c # rest) d scripts =
     (case fails (buildDeferredNudgeScript q f sess c d) scripts of
        Some err \<Rightarrow>
          (Some (SchedulingError sess err), scripts @ [buildDeferredNudgeScript q f sess c d])
      | None \<Rightarrow>
          scheduleLoop q f (recordingRunner fails) sess rest 0
            (scripts @ [buildDeferredNudgeScript q f sess c d]))"
  by (simp add: recordingRunner_def Let_def split: option.splits)

lemma scheduleLoop_zero_ok:
  "(\<And>x h. fails x h = None) \<Longrightarrow>
   scheduleLoop q f (recordingRunner fails) sess cs 0 scripts =
     (None, scripts @ map (\<lambda>c. buildDeferredNudgeScript q f sess c 0) cs)"
proof (induction cs arbitrary: scripts)
  case Nil
  then show ?case by simp
next
  case (Cons c cs)
  have ok: "fails (buildDeferredNudgeScript q f sess c 0) scripts = None"
    by (rule Cons.prems)
  show ?case
    by (simp only: scheduleLoop_recording_step ok Cons.IH [OF Cons.prems]) simp
qed

lemma scheduleLoop_ok:
  "(\<And>x h. fails x h = None) \<Longrightarrow>
   scheduleLoop q f (recordingRunner fails) sess cs d scripts =
     (None, scripts @ fragments q f sess cs d)"
proof (cases cs)
  case Nil
  then show ?thesis by (simp add: fragments_def)
next
  case (Cons c rest)
  assume ok: "\<And>x h. fails x h = None"
  have ok1: "fails (buildDeferredNudgeScript q f sess c d) scripts = None"
    by (rule ok)
  show ?thesis
    unfolding Cons
    by (simp only: scheduleLoop_recording_step ok1 scheduleLoop_zero_ok [OF ok])
       (simp add: fragments_def)
qed

lemma scheduleLoop_zero_calls:
  "scheduleLoop q f (recordingRunner fails) sess cs 0 scripts = (None, scripts') \<Longrightarrow>
   scripts' = scripts @ map (\<lambda>c. buildDeferredNudgeScript q f sess c 0) cs"
proof (induction cs arbitrary: scripts)
  case Nil
  then show ?case by simp
next
  case (Cons c cs)
  from Cons.prems have
    "scheduleLoop q f (recordingRunner fails) sess cs 0
       (scripts @ [buildDeferredNudgeScript q f sess c 0]) = (None, scripts')"
    by (simp only: scheduleLoop_recording_step split: option.splits) auto
  from Cons.IH [OF this] show ?case by simp
qed

lemma scheduleLoop_calls:
  assumes "scheduleLoop q f (recordingRunner fails) sess cs d scripts = (None, scripts')"
  shows "scripts' = scripts @ fragments q f sess cs d"
proof (cases cs)
  case Nil
  with assms show ?thesis by (simp add: fragments_def)
next
  case (Cons c rest)
  from assms have
    "scheduleLoop q f (recordingRunner fails) sess rest 0
       (scripts @ [buildDeferredNudgeScript q f sess c d]) = (None, scripts')"
    unfolding Cons by (simp only: scheduleLoop_recording_step split: option.splits) auto
  from scheduleLoop_zero_calls [OF this] show ?thesis
    by (simp add: Cons fragments_def)
qed

lemma scheduleLoop_append:
  "scheduleLoop q f run sess (xs @ ys) d s =
     (case scheduleLoop q f run sess xs d s of
        (Some e, s') \<Rightarrow> (Some e, s')
      | (None, s') \<Rightarrow> scheduleLoop q f run sess ys (if xs = [] then d else 0) s')"
proof (induction xs arbitrary: d s)
  case Nil
  then show ?case by simp
next
  case (Cons x xs)
  show ?case
    by (simp add: Cons.IH Let_def split: prod.splits option.splits)
qed

lemma fragments_snoc:
  "fragments q f sess (pre @ [c]) d =
     fragments q f sess pre d
     @ [buildDeferredNudgeScript q f sess c (if pre = [] then d else 0)]"
  by (cases pre) (simp_all add: fragments_def)

lemma scheduleLoop_abort:
  assumes "scheduleLoop q f (recordingRunner fails) sess pre d scripts = (None, scriptsPre)"
    and "fails (buildDeferredNudgeScript q f sess c (if pre = [] then d else 0)) scriptsPre = Some e"
  shows "scheduleLoop q f (recordingRunner fails) sess (pre @ c # post) d scripts =
     (Some (SchedulingError sess e), scripts @ fragments q f sess (pre @ [c]) d)"
proof -
  have s1: "scriptsPre = scripts @ fragments q f sess pre d"
    using assms(1) by (rule scheduleLoop_calls)
  show ?thesis
    using assms
    by (simp add: scheduleLoop_append scheduleLoop_recording_step s1 fragments_snoc
        del: scheduleLoop.simps)
qed

text \<open>
  The delay is positive only for a positive \<^verbatim>\<open>ReadyDelayMs\<close>. The converse fails where
  the product with \<^verbatim>\<open>time.Millisecond\<close> leaves the 64 bits.
\<close>

lemma delay_positive:
  "0 < sint (startupBootstrapDelay rc) \<Longrightarrow>
   \<exists>r t. rc = Some r \<and> Tmux r = Some t \<and> 0 < sint (ReadyDelayMs t)"
  by (auto simp: startupBootstrapDelay_def split: option.splits if_splits)

lemma delay_wraps:
  "sint (startupBootstrapDelay
     (Some \<lparr>PromptMode = [], Hooks = None, Tmux = Some \<lparr>ReadyDelayMs = 9223372036855\<rparr>\<rparr>)) < 0"
  by (simp add: startupBootstrapDelay_def Millisecond_def)

lemma schedule_unfold:
  "scheduleRespawnStartupBootstrap q f fc run sess role rc s =
     scheduleLoop q f run sess (fc role rc) (startupBootstrapDelay rc) s"
  by (cases "fc role rc") (simp_all add: scheduleRespawnStartupBootstrap_def Let_def)

text \<open>
  Claim C7. The detached scheduling turns each fallback command, in order, into one
  shell fragment: the literal \<open>send-keys\<close> with the quoted session and the quoted
  command, then the \<open>send-keys\<close> of Enter with the quoted session, joined by \<open>&&\<close>,
  after a leading \<open>sleep\<close> with the formatted seconds when the delay given to the
  fragment is positive. The first fragment gets the ready delay, which is positive only
  when the configured \<^verbatim>\<open>ReadyDelayMs\<close> is; every later fragment gets the delay 0, so
  no sleep. With the recording runner: a call that returns no error has submitted
  exactly the fragments of the commands, in order (and does so whenever no submission
  fails); when the commands before one were submitted without error and its submission
  fails, the call returns that error, wrapped with the session, and nothing after the
  failed fragment is submitted.
\<close>

theorem detached_fragments:
  fixes fails :: "string \<Rightarrow> string list \<Rightarrow> 'e option"
  shows
  "buildDeferredNudgeScript q f sess cmd d =
     (if 0 < sint d then ''sleep '' @ f d @ '' && '' else [])
     @ ''tmux send-keys -t '' @ q sess @ '' -l '' @ q cmd
     @ '' && '' @ ''tmux send-keys -t '' @ q sess @ '' Enter''
   \<and> fragments q f sess (cmd # cmds) d =
       buildDeferredNudgeScript q f sess cmd d
       # map (\<lambda>c. buildDeferredNudgeScript q f sess c 0) cmds
   \<and> (scheduleRespawnStartupBootstrap q f fc (recordingRunner fails) sess role rc scripts
        = (None, scripts') \<longrightarrow>
      scripts' = scripts @ fragments q f sess (fc role rc) (startupBootstrapDelay rc))
   \<and> ((\<forall>x h. fails x h = None) \<longrightarrow>
      scheduleRespawnStartupBootstrap q f fc (recordingRunner fails) sess role rc scripts
        = (None, scripts @ fragments q f sess (fc role rc) (startupBootstrapDelay rc)))
   \<and> (fc role rc = pre @ c # post
        \<and> scheduleRespawnStartupBootstrap q f (\<lambda>_ _. pre) (recordingRunner fails) sess role rc
            scripts = (None, scriptsPre)
        \<and> fails (buildDeferredNudgeScript q f sess c
                   (if pre = [] then startupBootstrapDelay rc else 0)) scriptsPre = Some e
      \<longrightarrow>
      scheduleRespawnStartupBootstrap q f fc (recordingRunner fails) sess role rc scripts
        = (Some (SchedulingError sess e),
           scripts @ fragments q f sess (pre @ [c]) (startupBootstrapDelay rc)))
   \<and> (0 < sint (startupBootstrapDelay rc) \<longrightarrow>
        (\<exists>r t. rc = Some r \<and> Tmux r = Some t \<and> 0 < sint (ReadyDelayMs t)))"
proof (intro conjI impI)
  show "buildDeferredNudgeScript q f sess cmd d =
     (if 0 < sint d then ''sleep '' @ f d @ '' && '' else [])
     @ ''tmux send-keys -t '' @ q sess @ '' -l '' @ q cmd
     @ '' && '' @ ''tmux send-keys -t '' @ q sess @ '' Enter''"
    by (rule script_shape)
next
  show "fragments q f sess (cmd # cmds) d =
       buildDeferredNudgeScript q f sess cmd d
       # map (\<lambda>c. buildDeferredNudgeScript q f sess c 0) cmds"
    by (simp add: fragments_def)
next
  assume "scheduleRespawnStartupBootstrap q f fc (recordingRunner fails) sess role rc scripts
        = (None, scripts')"
  then show "scripts' = scripts @ fragments q f sess (fc role rc) (startupBootstrapDelay rc)"
    by (simp add: schedule_unfold scheduleLoop_calls)
next
  assume "\<forall>x h. fails x h = None"
  then show "scheduleRespawnStartupBootstrap q f fc (recordingRunner fails) sess role rc scripts
        = (None, scripts @ fragments q f sess (fc role rc) (startupBootstrapDelay rc))"
    by (simp add: schedule_unfold scheduleLoop_ok)
next
  assume a: "fc role rc = pre @ c # post
        \<and> scheduleRespawnStartupBootstrap q f (\<lambda>_ _. pre) (recordingRunner fails) sess role rc
            scripts = (None, scriptsPre)
        \<and> fails (buildDeferredNudgeScript q f sess c
                   (if pre = [] then startupBootstrapDelay rc else 0)) scriptsPre = Some e"
  then have pre: "scheduleLoop q f (recordingRunner fails) sess pre (startupBootstrapDelay rc)
      scripts = (None, scriptsPre)"
    by (simp add: schedule_unfold)
  from a have "fails (buildDeferredNudgeScript q f sess c
                   (if pre = [] then startupBootstrapDelay rc else 0)) scriptsPre = Some e"
    by simp
  from scheduleLoop_abort [OF pre this, of post] a
  show "scheduleRespawnStartupBootstrap q f fc (recordingRunner fails) sess role rc scripts
        = (Some (SchedulingError sess e),
           scripts @ fragments q f sess (pre @ [c]) (startupBootstrapDelay rc))"
    by (simp add: schedule_unfold)
next
  assume "0 < sint (startupBootstrapDelay rc)"
  then show "\<exists>r t. rc = Some r \<and> Tmux r = Some t \<and> 0 < sint (ReadyDelayMs t)"
    by (rule delay_positive)
qed

text \<open>
  Two commands, quoting with single quotes, a ready delay of 3000 ms, and a runner that
  accepts the first script only.
\<close>

theorem detached_fragments_witness:
  "scheduleRespawnStartupBootstrap (\<lambda>s. [CHR 0x27] @ s @ [CHR 0x27]) (\<lambda>d. ''3.000'')
     (\<lambda>role rc. [''gt prime'', ''gt hook''])
     (recordingRunner (\<lambda>script scripts. if scripts = [] then None else Some ''no server''))
     ''gt-crew-max'' ''crew''
     (Some \<lparr>PromptMode = ''none'', Hooks = Some \<lparr>Provider = ''none'', Informational = False\<rparr>,
            Tmux = Some \<lparr>ReadyDelayMs = 3000\<rparr>\<rparr>) []
   = (Some (SchedulingError ''gt-crew-max'' ''no server''),
      [''sleep 3.000 && tmux send-keys -t '' @ [CHR 0x27] @ ''gt-crew-max'' @ [CHR 0x27]
         @ '' -l '' @ [CHR 0x27] @ ''gt prime'' @ [CHR 0x27]
         @ '' && tmux send-keys -t '' @ [CHR 0x27] @ ''gt-crew-max'' @ [CHR 0x27] @ '' Enter'',
       ''tmux send-keys -t '' @ [CHR 0x27] @ ''gt-crew-max'' @ [CHR 0x27]
         @ '' -l '' @ [CHR 0x27] @ ''gt hook'' @ [CHR 0x27]
         @ '' && tmux send-keys -t '' @ [CHR 0x27] @ ''gt-crew-max'' @ [CHR 0x27] @ '' Enter''])"
  using detached_fragments
    [where q = "\<lambda>s. [CHR 0x27] @ s @ [CHR 0x27]" and f = "\<lambda>d. ''3.000''"
       and fc = "\<lambda>role rc. [''gt prime'', ''gt hook'']"
       and fails = "\<lambda>script scripts. if scripts = [] then None else Some ''no server''"
       and sess = "''gt-crew-max''" and role = "''crew''"
       and rc = "Some \<lparr>PromptMode = ''none'',
                  Hooks = Some \<lparr>Provider = ''none'', Informational = False\<rparr>,
                  Tmux = Some \<lparr>ReadyDelayMs = 3000\<rparr>\<rparr>"
       and scripts = "[]" and pre = "[''gt prime'']" and c = "''gt hook''" and post = "[]"
       and e = "''no server''"
       and scriptsPre = "[''sleep 3.000 && tmux send-keys -t '' @ [CHR 0x27] @ ''gt-crew-max'' @ [CHR 0x27]
         @ '' -l '' @ [CHR 0x27] @ ''gt prime'' @ [CHR 0x27]
         @ '' && tmux send-keys -t '' @ [CHR 0x27] @ ''gt-crew-max'' @ [CHR 0x27] @ '' Enter'']"]
  by (simp add: scheduleRespawnStartupBootstrap_def Let_def startupBootstrapDelay_def
      Millisecond_def buildDeferredNudgeScript_def recordingRunner_def fragments_def)

subsection \<open>Session start: validation\<close>

text \<open>
  Claim C8. \<open>StartSession\<close> checks the session id, then the working directory, then
  the role. When one of them is empty it returns the message of the first empty one,
  \<open>SessionID is required\<close>, \<open>WorkDir is required\<close> or \<open>Role is required\<close>, and the
  world is as before: nothing was launched. The three messages differ and each starts
  with the name of its field. With the three fields set, the session is launched.
\<close>

theorem StartSession_validation:
  "(SessionID cfg = [] \<longrightarrow> StartSession launch cfg s = (Inl ''SessionID is required'', s))
   \<and> (SessionID cfg \<noteq> [] \<and> WorkDir cfg = [] \<longrightarrow>
        StartSession launch cfg s = (Inl ''WorkDir is required'', s))
   \<and> (SessionID cfg \<noteq> [] \<and> WorkDir cfg \<noteq> [] \<and> SessionRole cfg = [] \<longrightarrow>
        StartSession launch cfg s = (Inl ''Role is required'', s))
   \<and> (SessionID cfg \<noteq> [] \<and> WorkDir cfg \<noteq> [] \<and> SessionRole cfg \<noteq> [] \<longrightarrow>
        StartSession launch cfg s = launch cfg s)
   \<and> distinct [''SessionID is required'', ''WorkDir is required'', ''Role is required'']
   \<and> prefix ''SessionID'' ''SessionID is required''
   \<and> prefix ''WorkDir'' ''WorkDir is required''
   \<and> prefix ''Role'' ''Role is required''"
  by (simp add: StartSession_def)

text \<open>A launch that counts its calls: it is reached only with the three fields set.\<close>

theorem StartSession_validation_witness:
  "StartSession (\<lambda>cfg n. (Inr (SessionID cfg), Suc n))
     \<lparr>SessionID = [], WorkDir = [], SessionRole = []\<rparr> (0::nat)
     = (Inl ''SessionID is required'', 0)
   \<and> StartSession (\<lambda>cfg n. (Inr (SessionID cfg), Suc n))
     \<lparr>SessionID = ''gt-test'', WorkDir = [], SessionRole = []\<rparr> (0::nat)
     = (Inl ''WorkDir is required'', 0)
   \<and> StartSession (\<lambda>cfg n. (Inr (SessionID cfg), Suc n))
     \<lparr>SessionID = ''gt-test'', WorkDir = ''/tmp'', SessionRole = []\<rparr> (0::nat)
     = (Inl ''Role is required'', 0)
   \<and> StartSession (\<lambda>cfg n. (Inr (SessionID cfg), Suc n))
     \<lparr>SessionID = ''gt-test'', WorkDir = ''/tmp'', SessionRole = ''polecat''\<rparr> (0::nat)
     = (Inr ''gt-test'', 1)"
  using
    StartSession_validation [of "\<lparr>SessionID = [], WorkDir = [], SessionRole = []\<rparr>"
      "\<lambda>cfg n. (Inr (SessionID cfg), Suc n)" "0::nat"]
    StartSession_validation [of "\<lparr>SessionID = ''gt-test'', WorkDir = [], SessionRole = []\<rparr>"
      "\<lambda>cfg n. (Inr (SessionID cfg), Suc n)" "0::nat"]
    StartSession_validation [of "\<lparr>SessionID = ''gt-test'', WorkDir = ''/tmp'', SessionRole = []\<rparr>"
      "\<lambda>cfg n. (Inr (SessionID cfg), Suc n)" "0::nat"]
    StartSession_validation [of "\<lparr>SessionID = ''gt-test'', WorkDir = ''/tmp'', SessionRole = ''polecat''\<rparr>"
      "\<lambda>cfg n. (Inr (SessionID cfg), Suc n)" "0::nat"]
  by simp

end
